theory Spec2Isabelle
  imports Complex_Main "HOL-Library.Multiset" "HOL-Library.Sublist"
begin

section \<open>Conventions of the embedding\<close>

text \<open>
  The sources are JavaScript. A JavaScript number is modelled as a \<^typ>\<open>real\<close>: arithmetic
  is exact, rounding and overflow of IEEE doubles are not represented, and the values
  \<^verbatim>\<open>NaN\<close> and \<^verbatim>\<open>Infinity\<close> do not exist. Integral quantities that drive a loop
  (a number of days, a number of iterations) and instants (milliseconds since the epoch,
  the value of \<^verbatim>\<open>new Date(s)\<close> for an ISO string \<^verbatim>\<open>s\<close>) are \<^typ>\<open>int\<close>.
  A property that may be absent from an object (\<^verbatim>\<open>undefined\<close>, or \<^verbatim>\<open>null\<close> for
  \<^verbatim>\<open>pnl\<close>) is an \<^typ>\<open>'a option\<close>. An exception is a value \<open>Inl e\<close> of a sum type.
  File contents and the random generator, which the sources reach through globals, are
  passed explicitly.
\<close>

datatype error = TypeError

text \<open>Truthiness of an optional number: \<^verbatim>\<open>undefined\<close> and \<^verbatim>\<open>0\<close> are falsy.\<close>

definition truthy :: "real option \<Rightarrow> bool" where
  "truthy v = (case v of None \<Rightarrow> False | Some x \<Rightarrow> x \<noteq> 0)"

text \<open>Truthiness of an optional string: \<^verbatim>\<open>undefined\<close> and the empty string are falsy.\<close>

definition truthy_str :: "string option \<Rightarrow> bool" where
  "truthy_str v = (case v of None \<Rightarrow> False | Some s \<Rightarrow> s \<noteq> [])"

text \<open>
  \<^verbatim>\<open>xs[i]\<close> for an integral index: \<^verbatim>\<open>undefined\<close> outside the array.
\<close>

definition at_index :: "'a list \<Rightarrow> int \<Rightarrow> 'a option" where
  "at_index xs i = (if 0 \<le> i \<and> i < int (length xs) then Some (xs ! nat i) else None)"

text \<open>
  The decimal rendering of an integer, as a template literal produces it
  (\<^verbatim>\<open>`${Date.now()}`\<close>).
\<close>

definition digit :: "nat \<Rightarrow> char" where
  "digit d = char_of (48 + d)"

fun digits :: "nat \<Rightarrow> string" where
  "digits n = (if n < 10 then [digit n] else digits (n div 10) @ [digit (n mod 10)])"

declare digits.simps [simp del]

definition toString :: "int \<Rightarrow> string" where
  "toString i = (if i < 0 then CHR ''-'' # digits (nat (- i)) else digits (nat i))"

text \<open>Reading a decimal numeral back; used to show that the rendering is injective.\<close>

definition undigits :: "string \<Rightarrow> nat" where
  "undigits s = foldl (\<lambda>a c. 10 * a + (of_char c - 48)) 0 s"


section \<open>The JLP simulator (src/yield/jlp-simulator.js)\<close>

record scenario =
  drift :: real
  volatility :: real

text \<open>The table \<^verbatim>\<open>PRICE_SCENARIOS\<close>, keyed by scenario name.\<close>

definition PRICE_SCENARIOS :: "string \<Rightarrow> scenario option" where
  "PRICE_SCENARIOS =
     [''stable'' \<mapsto> \<lparr>drift = 0, volatility = 0.02\<rparr>,
      ''bullish'' \<mapsto> \<lparr>drift = 0.15, volatility = 0.10\<rparr>,
      ''bearish'' \<mapsto> \<lparr>drift = - 0.15, volatility = 0.10\<rparr>,
      ''volatile'' \<mapsto> \<lparr>drift = 0, volatility = 0.15\<rparr>]"

text \<open>
  \<^verbatim>\<open>Math.pow\<close> where its value is a finite real: any base to the exponent 0 is 1; a
  positive base to a real exponent; 0 to a positive exponent; a negative base to an
  integral exponent. Elsewhere JavaScript yields \<^verbatim>\<open>NaN\<close> or an infinity, which a real
  cannot hold; the model puts 0 there, and no theorem below reads that branch.
\<close>

definition Math_pow :: "real \<Rightarrow> real \<Rightarrow> real" where
  "Math_pow x y =
     (if y = 0 then 1
      else if 0 < x then x powr y
      else if x = 0 \<and> 0 < y then 0
      else if x < 0 \<and> y = real_of_int \<lfloor>y\<rfloor> then x powi \<lfloor>y\<rfloor>
      else 0)"

text \<open>
  \<^verbatim>\<open>calculateCompoundInterest(principal, apy, days, compoundFrequency = 365)\<close>. The two
  quotients by \<open>compoundFrequency\<close> are JavaScript divisions: for a frequency of 0 they
  are not finite there, while HOL's total division gives 0.
\<close>

definition calculateCompoundInterest :: "real \<Rightarrow> real \<Rightarrow> real \<Rightarrow> real \<Rightarrow> real" where
  "calculateCompoundInterest principal' apy days compoundFrequency =
     (let rate = apy / 100;
          periods = days / (365 / compoundFrequency)
      in principal' * Math_pow (1 + rate / compoundFrequency) periods)"

text \<open>
  The random generator is a sequence \<open>rnd\<close> of samples and the number \<open>k\<close> of samples
  drawn so far: \<^verbatim>\<open>Math.random()\<close> returns \<open>rnd k\<close> and advances \<open>k\<close>.

  The body of the \<^verbatim>\<open>for\<close> loop of \<^verbatim>\<open>simulatePricePath\<close>, run \<open>n\<close> more times from
  the current price; it returns the prices pushed.
\<close>

fun pricePathLoop :: "real \<Rightarrow> real \<Rightarrow> (nat \<Rightarrow> real) \<Rightarrow> nat \<Rightarrow> real \<Rightarrow> nat \<Rightarrow> real list" where
  "pricePathLoop dailyDrift dailyVol rnd k price 0 = []"
| "pricePathLoop dailyDrift dailyVol rnd k price (Suc n) =
     (let randomShock = (rnd k - 0.5) * 2 * dailyVol;
          price' = price * (1 + dailyDrift + randomShock)
      in price' # pricePathLoop dailyDrift dailyVol rnd (Suc k) price' n)"

text \<open>
  \<^verbatim>\<open>simulatePricePath(startPrice, days, scenario)\<close>. Destructuring the table entry of an
  unknown scenario name throws a \<^verbatim>\<open>TypeError\<close>. The loop \<^verbatim>\<open>for (i = 1; i <= days; i++)\<close>
  runs \<open>nat days\<close> times, that is not at all for \<open>days \<le> 0\<close>. The result is the array of
  prices and the generator's new position.
\<close>

definition simulatePricePath ::
  "real \<Rightarrow> int \<Rightarrow> string \<Rightarrow> (nat \<Rightarrow> real) \<Rightarrow> nat \<Rightarrow> error + (real list \<times> nat)" where
  "simulatePricePath startPrice days scenario rnd k =
     (case PRICE_SCENARIOS scenario of
        None \<Rightarrow> Inl TypeError
      | Some sc \<Rightarrow>
          (let dailyDrift = drift sc / 365;
               dailyVol = volatility sc / sqrt 365;
               price = startPrice
           in Inr (price # pricePathLoop dailyDrift dailyVol rnd k price (nat days),
                   k + nat days)))"

record trial =
  totalValue :: real
  yieldValue :: real
  priceReturn :: real
  roi :: real

text \<open>
  The first loop of \<^verbatim>\<open>runMonteCarlo\<close>, run \<open>n\<close> more times: the results pushed, in
  order, and the generator's new position. \<^verbatim>\<open>pricePath[pricePath.length - 1]\<close> is the
  last element of an array that always holds the start price. The quotient by
  \<open>principal\<close> in \<open>roi\<close> is a JavaScript division (not finite for a principal of 0).
\<close>

fun trialsLoop :: "real \<Rightarrow> real \<Rightarrow> int \<Rightarrow> (nat \<Rightarrow> real) \<Rightarrow> nat \<Rightarrow> nat \<Rightarrow> error + (trial list \<times> nat)" where
  "trialsLoop principal' apy days rnd k 0 = Inr ([], k)"
| "trialsLoop principal' apy days rnd k (Suc n) =
     (case simulatePricePath 1.0 days ''stable'' rnd k of
        Inl e \<Rightarrow> Inl e
      | Inr (pricePath, k') \<Rightarrow>
          (let endPrice = last pricePath;
               yieldValue = calculateCompoundInterest principal' apy (real_of_int days) 365 - principal';
               priceReturn = principal' * (endPrice - 1);
               totalValue = principal' + yieldValue + priceReturn;
               result = \<lparr>totalValue = totalValue, yieldValue = yieldValue,
                         priceReturn = priceReturn,
                         roi = ((totalValue - principal') / principal') * 100\<rparr>
           in case trialsLoop principal' apy days rnd k' n of
                Inl e \<Rightarrow> Inl e
              | Inr (results, k'') \<Rightarrow> Inr (result # results, k'')))"

record percentiles =
  worst :: "trial option"
  p25 :: "trial option"
  median :: "trial option"
  p75 :: "trial option"
  best :: "trial option"

text \<open>
  \<^verbatim>\<open>runMonteCarlo(principal, apy, days, iterations = 1000)\<close>. The loop
  \<^verbatim>\<open>for (i = 0; i < iterations; i++)\<close> runs \<open>nat iterations\<close> times.
  \<^verbatim>\<open>Array.prototype.sort\<close> is stable, as \<^const>\<open>sort_key\<close> is.
\<close>

definition runMonteCarlo ::
  "real \<Rightarrow> real \<Rightarrow> int \<Rightarrow> int \<Rightarrow> (nat \<Rightarrow> real) \<Rightarrow> nat \<Rightarrow> error + (percentiles \<times> nat)" where
  "runMonteCarlo principal' apy days iterations rnd k =
     (case trialsLoop principal' apy days rnd k (nat iterations) of
        Inl e \<Rightarrow> Inl e
      | Inr (results, k') \<Rightarrow>
          (let sorted_results = sort_key totalValue results
           in Inr (\<lparr>worst = at_index sorted_results \<lfloor>real_of_int iterations * 0.05\<rfloor>,
                    p25 = at_index sorted_results \<lfloor>real_of_int iterations * 0.25\<rfloor>,
                    median = at_index sorted_results \<lfloor>real_of_int iterations * 0.5\<rfloor>,
                    p75 = at_index sorted_results \<lfloor>real_of_int iterations * 0.75\<rfloor>,
                    best = at_index sorted_results \<lfloor>real_of_int iterations * 0.95\<rfloor>\<rparr>,
                   k')))"


section \<open>The trade journal (src/trading/trade-journal.js)\<close>

text \<open>
  The object handed to \<^verbatim>\<open>addTrade\<close>. It is spread into the stored trade, so an \<open>id\<close>
  or a \<open>timestamp\<close> of its own, when it has one, replaces the generated one.
\<close>

record trade_input =
  in_id :: "string option"
  in_timestamp :: "int option"
  in_symbol :: string
  in_side :: string
  in_entryPrice :: "real option"
  in_exitPrice :: "real option"
  in_size :: real
  in_fees :: "real option"
  in_status :: string
  in_tags :: "string list option"
  in_notes :: string

record trade =
  tradeId :: string
  timestamp :: int
  symbol :: string
  side :: string
  entryPrice :: "real option"
  exitPrice :: "real option"
  tradeSize :: real
  fees :: "real option"
  status :: string
  tags :: "string list option"
  tradeNotes :: string
  pnl :: "real option"

record journal =
  trades :: "trade list"
  createdAt :: int
  lastUpdated :: int

text \<open>
  \<^verbatim>\<open>addTrade(trade)\<close>, on the journal that \<^verbatim>\<open>loadJournal\<close> read; it returns the new trade
  and the journal that \<^verbatim>\<open>saveJournal\<close> writes. The clock is read three times: \<open>now\<close> is
  \<^verbatim>\<open>Date.now()\<close> in the id, \<open>stamped\<close> is \<^verbatim>\<open>new Date()\<close> in the timestamp, \<open>saved\<close> is
  \<^verbatim>\<open>new Date()\<close> in \<^verbatim>\<open>saveJournal\<close>. The guard \<^verbatim>\<open>trade.exitPrice && trade.entryPrice\<close>
  is the truthiness of both prices.
\<close>

definition addTrade :: "int \<Rightarrow> int \<Rightarrow> int \<Rightarrow> trade_input \<Rightarrow> journal \<Rightarrow> trade \<times> journal" where
  "addTrade now stamped saved trade journal =
     (let newTrade =
        \<lparr>tradeId = (case in_id trade of Some i \<Rightarrow> i | None \<Rightarrow> ''trade-'' @ toString now),
         timestamp = (case in_timestamp trade of Some t \<Rightarrow> t | None \<Rightarrow> stamped),
         symbol = in_symbol trade,
         side = in_side trade,
         entryPrice = in_entryPrice trade,
         exitPrice = in_exitPrice trade,
         tradeSize = in_size trade,
         fees = in_fees trade,
         status = in_status trade,
         tags = in_tags trade,
         tradeNotes = in_notes trade,
         pnl = (case (in_exitPrice trade, in_entryPrice trade) of
                  (Some exitP, Some entryP) \<Rightarrow>
                    if exitP \<noteq> 0 \<and> entryP \<noteq> 0
                    then Some ((if in_side trade = ''long'' then 1 else - 1)
                                * (exitP - entryP) * in_size trade)
                    else None
                | _ \<Rightarrow> None)\<rparr>
      in (newTrade, journal\<lparr>trades := trades journal @ [newTrade], lastUpdated := saved\<rparr>))"

text \<open>
  The filters of \<^verbatim>\<open>calculateAnalytics\<close>. The two dates are the instants that
  \<^verbatim>\<open>new Date(filters.startDate)\<close> and \<^verbatim>\<open>new Date(filters.endDate)\<close> denote.
\<close>

record filters =
  f_symbol :: "string option"
  f_startDate :: "int option"
  f_endDate :: "int option"
  f_side :: "string option"
  f_tags :: "string list option"

text \<open>Lines 41 to 60 of \<^verbatim>\<open>calculateAnalytics\<close>: the filters, applied one after the other.\<close>

definition filterTrades :: "filters \<Rightarrow> trade list \<Rightarrow> trade list" where
  "filterTrades flt ts =
     (let ft1 = (if truthy_str (f_symbol flt)
                 then filter (\<lambda>t. Some (symbol t) = f_symbol flt) ts else ts);
          ft2 = (case f_startDate flt of
                   Some d \<Rightarrow> filter (\<lambda>t. d \<le> timestamp t) ft1 | None \<Rightarrow> ft1);
          ft3 = (case f_endDate flt of
                   Some d \<Rightarrow> filter (\<lambda>t. timestamp t \<le> d) ft2 | None \<Rightarrow> ft2);
          ft4 = (if truthy_str (f_side flt)
                 then filter (\<lambda>t. Some (side t) = f_side flt) ft3 else ft3)
      in (case f_tags flt of
            Some (g # gs) \<Rightarrow>
              filter (\<lambda>t. list_ex (\<lambda>tag. case tags t of Some tgs \<Rightarrow> tag \<in> set tgs
                                                         | None \<Rightarrow> False) (g # gs)) ft4
          | _ \<Rightarrow> ft4))"

text \<open>
  \<^verbatim>\<open>t.pnl\<close> read as a number; \<^verbatim>\<open>null\<close> counts as 0 in a sum and is neither positive nor
  negative. \<^verbatim>\<open>t.fees || 0\<close> likewise.
\<close>

definition pnl_num :: "trade \<Rightarrow> real" where
  "pnl_num t = (case pnl t of Some p \<Rightarrow> p | None \<Rightarrow> 0)"

definition fees_num :: "trade \<Rightarrow> real" where
  "fees_num t = (case fees t of Some f \<Rightarrow> f | None \<Rightarrow> 0)"

text \<open>\<^verbatim>\<open>ts.reduce((sum, t) => sum + t.pnl, 0)\<close> and the same for the fees.\<close>

definition sumPnl :: "trade list \<Rightarrow> real" where
  "sumPnl ts = foldl (\<lambda>sum t. sum + pnl_num t) 0 ts"

definition sumFees :: "trade list \<Rightarrow> real" where
  "sumFees ts = foldl (\<lambda>sum t. sum + fees_num t) 0 ts"

record equity_point =
  date :: int
  equity :: real
  drawdown :: real
  drawdownPercent :: real

text \<open>The variables of the replay loop (lines 67 to 71).\<close>

record replay =
  r_equity :: real
  r_peakEquity :: real
  r_maxDrawdown :: real
  r_maxDrawdownPercent :: real
  r_equityCurve :: "equity_point list"

definition replay_init :: replay where
  "replay_init = \<lparr>r_equity = 0, r_peakEquity = 0, r_maxDrawdown = 0,
                   r_maxDrawdownPercent = 0, r_equityCurve = []\<rparr>"

text \<open>One pass through the body of the loop (lines 74 to 86).\<close>

definition replay_step :: "replay \<Rightarrow> trade \<Rightarrow> replay" where
  "replay_step s trade =
     (let equity' = r_equity s + pnl_num trade;
          peakEquity' = max (r_peakEquity s) equity';
          drawdown' = peakEquity' - equity';
          drawdownPercent' = (if peakEquity' > 0 then (drawdown' / peakEquity') * 100 else 0)
      in \<lparr>r_equity = equity',
          r_peakEquity = peakEquity',
          r_maxDrawdown = max (r_maxDrawdown s) drawdown',
          r_maxDrawdownPercent = max (r_maxDrawdownPercent s) drawdownPercent',
          r_equityCurve = r_equityCurve s @
            [\<lparr>date = timestamp trade, equity = equity', drawdown = drawdown',
              drawdownPercent = drawdownPercent'\<rparr>]\<rparr>)"

record summary =
  totalTrades :: nat
  closedTrades :: nat
  openTrades :: nat
  winRate :: real
  totalPnL :: real
  avgWin :: real
  avgLoss :: real
  profitFactor :: real
  maxDrawdown :: real
  maxDrawdownPercent :: real
  currentEquity :: real
  peakEquity :: real

record bias =
  longCount :: nat
  shortCount :: nat
  longPercent :: real
  shortPercent :: real
  longPnL :: real
  shortPnL :: real

record fee_stats =
  totalFees :: real
  avgFeePerTrade :: real
  feePercentOfPnL :: real

record analytics =
  a_summary :: summary
  a_bias :: bias
  a_fees :: fee_stats
  equityCurve :: "equity_point list"
  a_trades :: "trade list"

text \<open>The closed trades of a filtered list (line 62), in the order of the list.\<close>

definition closedOf :: "trade list \<Rightarrow> trade list" where
  "closedOf filteredTrades =
     filter (\<lambda>t. status t = ''closed'' \<and> pnl t \<noteq> None) filteredTrades"

text \<open>
  \<^verbatim>\<open>calculateAnalytics(trades, filters = {})\<close>. \<^verbatim>\<open>closedTrades.sort(...)\<close> in the head of
  the loop sorts the array in place, by ascending instant and stably: the winners and
  the losers were filtered from the array before the sort, the long and the short
  trades, the fees and \<open>totalPnL\<close> are computed from the sorted array.
\<close>

definition calculateAnalytics :: "trade list \<Rightarrow> filters \<Rightarrow> analytics" where
  "calculateAnalytics ts flt =
     (let filteredTrades = filterTrades flt ts;
          unsortedClosed = closedOf filteredTrades;
          winningTrades = filter (\<lambda>t. pnl_num t > 0) unsortedClosed;
          losingTrades = filter (\<lambda>t. pnl_num t < 0) unsortedClosed;
          closed = sort_key timestamp unsortedClosed;
          s = foldl replay_step replay_init closed;
          longTrades = filter (\<lambda>t. side t = ''long'') closed;
          shortTrades = filter (\<lambda>t. side t = ''short'') closed;
          total = length longTrades + length shortTrades;
          totalFees' = sumFees closed;
          avgFeePerTrade' = (if length closed > 0 then totalFees' / real (length closed) else 0)
      in \<lparr>a_summary =
            \<lparr>totalTrades = length filteredTrades,
             closedTrades = length closed,
             openTrades = length (filter (\<lambda>t. status t = ''open'') filteredTrades),
             winRate = (if length closed > 0
                        then (real (length winningTrades) / real (length closed)) * 100 else 0),
             totalPnL = sumPnl closed,
             avgWin = (if length winningTrades > 0
                       then sumPnl winningTrades / real (length winningTrades) else 0),
             avgLoss = (if length losingTrades > 0
                        then sumPnl losingTrades / real (length losingTrades) else 0),
             profitFactor = (if length losingTrades > 0 \<and> \<bar>sumPnl losingTrades\<bar> > 0
                             then sumPnl winningTrades / \<bar>sumPnl losingTrades\<bar> else 0),
             maxDrawdown = r_maxDrawdown s,
             maxDrawdownPercent = r_maxDrawdownPercent s,
             currentEquity = r_equity s,
             peakEquity = r_peakEquity s\<rparr>,
          a_bias =
            \<lparr>longCount = length longTrades,
             shortCount = length shortTrades,
             longPercent = (if total > 0 then (real (length longTrades) / real total) * 100 else 0),
             shortPercent = (if total > 0 then (real (length shortTrades) / real total) * 100 else 0),
             longPnL = sumPnl longTrades,
             shortPnL = sumPnl shortTrades\<rparr>,
          a_fees =
            \<lparr>totalFees = totalFees',
             avgFeePerTrade = avgFeePerTrade',
             feePercentOfPnL = (if r_equity s \<noteq> 0 then (totalFees' / \<bar>r_equity s\<bar>) * 100 else 0)\<rparr>,
          equityCurve = r_equityCurve s,
          a_trades = filteredTrades\<rparr>)"


text \<open>The default \<^verbatim>\<open>filters = {}\<close>.\<close>

definition noFilters :: filters where
  "noFilters = \<lparr>f_symbol = None, f_startDate = None, f_endDate = None, f_side = None,
                 f_tags = None\<rparr>"

text \<open>The trade that the command \<^verbatim>\<open>add\<close> of the command line records.\<close>

definition exampleTrade :: trade_input where
  "exampleTrade =
     \<lparr>in_id = None, in_timestamp = None, in_symbol = ''SOL-PERP'', in_side = ''long'',
      in_entryPrice = Some 235.50, in_exitPrice = Some 240.00, in_size = 10,
      in_fees = Some 2.35, in_status = ''closed'',
      in_tags = Some [''breakout'', ''momentum''],
      in_notes = ''Entered on breakout above resistance''\<rparr>"

text \<open>The journal that \<^verbatim>\<open>loadJournal\<close> makes when there is no file, at the instant \<open>now\<close>.\<close>

definition newJournal :: "int \<Rightarrow> journal" where
  "newJournal now = \<lparr>trades = [], createdAt = now, lastUpdated = now\<rparr>"


text \<open>
  Two runs of the command \<^verbatim>\<open>add\<close> whose \<^verbatim>\<open>Date.now()\<close> is the same millisecond, the
  second on the journal that the first saved.
\<close>

definition firstAdd :: "trade \<times> journal" where
  "firstAdd = addTrade 1700000000000 1700000000000 1700000000001 exampleTrade
                (newJournal 1699999999999)"

definition secondAdd :: "trade \<times> journal" where
  "secondAdd = addTrade 1700000000000 1700000000000 1700000000001
                 (exampleTrade\<lparr>in_symbol := ''BTC-PERP'', in_side := ''short''\<rparr>) (snd firstAdd)"

text \<open>The example trade recorded while still open, and recorded closed with no exit price.\<close>

definition openAdd :: "trade \<times> journal" where
  "openAdd = addTrade 1700000000000 1700000000000 1700000000001
               (exampleTrade\<lparr>in_status := ''open''\<rparr>) (newJournal 1699999999999)"

definition closedAdd :: "trade \<times> journal" where
  "closedAdd = addTrade 1700000000000 1700000000000 1700000000001
                 (exampleTrade\<lparr>in_exitPrice := None\<rparr>) (newJournal 1699999999999)"

text \<open>
  A closed trade as \<^verbatim>\<open>addTrade\<close> stores it: entered at 100 with size 1 (long) or -1
  (short), left at \<open>100 + p\<close>, so that its pnl is \<open>p\<close>; stamped at the instant \<open>stamp\<close>.
\<close>

definition sampleTrade :: "int \<Rightarrow> string \<Rightarrow> real \<Rightarrow> trade" where
  "sampleTrade stamp sd p =
     \<lparr>tradeId = ''trade-'' @ toString stamp, timestamp = stamp, symbol = ''SOL-PERP'', side = sd,
      entryPrice = Some 100, exitPrice = Some (100 + p), tradeSize = (if sd = ''long'' then 1 else - 1),
      fees = None, status = ''closed'', tags = None, tradeNotes = [], pnl = Some p\<rparr>"


subsection \<open>The replay as the specification words it\<close>

text \<open>
  The specification describes the replay by what holds after each step. For the trades
  replayed so far, a prefix \<open>pre\<close> of the chronological order: the running equity is the
  cumulative pnl; the running peak is the greatest equity so far, the equity 0 before
  the first trade included (the empty prefix); the drawdown is peak minus equity; the
  drawdown percent is drawdown / peak * 100, and 0 when the peak is not positive.
\<close>

definition spec_equity :: "trade list \<Rightarrow> real" where
  "spec_equity pre = sum_list (map pnl_num pre)"

definition spec_peak :: "trade list \<Rightarrow> real" where
  "spec_peak pre = Max (spec_equity ` set (prefixes pre))"

definition spec_drawdown :: "trade list \<Rightarrow> real" where
  "spec_drawdown pre = spec_peak pre - spec_equity pre"

definition spec_drawdownPercent :: "trade list \<Rightarrow> real" where
  "spec_drawdownPercent pre =
     (if spec_peak pre \<le> 0 then 0 else spec_drawdown pre / spec_peak pre * 100)"

text \<open>The point of the equity curve after the step that replays the last trade of \<open>pre\<close>.\<close>

definition spec_point :: "trade list \<Rightarrow> equity_point" where
  "spec_point pre =
     \<lparr>date = timestamp (last pre), equity = spec_equity pre, drawdown = spec_drawdown pre,
      drawdownPercent = spec_drawdownPercent pre\<rparr>"


section \<open>The position tracker (src/yield/position-tracker.js)\<close>

record position =
  pos_name :: string
  pos_token :: string
  pos_type :: string
  pos_balance :: real
  pos_price :: real
  pos_value :: real
  pos_apy :: real
  pos_notes :: string
  pos_lastUpdated :: int

text \<open>What \<^verbatim>\<open>showPortfolio\<close> reports under the table of positions.\<close>

record portfolio =
  pf_totalValue :: real
  pf_totalDailyYield :: real
  pf_blendedApy :: "real option"

text \<open>
  Lines 127 to 159 of \<^verbatim>\<open>showPortfolio\<close>: the totals accumulated by \<^verbatim>\<open>entries.forEach\<close>
  over the (name, position) pairs of \<^verbatim>\<open>Object.entries(positions)\<close>, and the blended APY,
  computed only under \<^verbatim>\<open>if (totalValue > 0)\<close>.
\<close>

definition portfolioTotals :: "(string \<times> position) list \<Rightarrow> portfolio" where
  "portfolioTotals entries =
     (let (totalValue', totalDailyYield') =
            foldl (\<lambda>(tv, tdy) (name, pos).
                     (let dailyYield = pos_value pos * (pos_apy pos / 100) / 365
                      in (tv + pos_value pos, tdy + dailyYield)))
                  (0, 0) entries
      in \<lparr>pf_totalValue = totalValue',
          pf_totalDailyYield = totalDailyYield',
          pf_blendedApy = (if totalValue' > 0
                           then Some ((totalDailyYield' * 365 / totalValue') * 100)
                           else None)\<rparr>)"

text \<open>
  \<^verbatim>\<open>showPortfolio\<close> on the positions that \<^verbatim>\<open>loadPositions\<close> read. With no entry it prints
  that no position is tracked and returns before any total is computed (\<open>None\<close>).
\<close>

definition showPortfolio :: "(string \<times> position) list \<Rightarrow> portfolio option" where
  "showPortfolio entries =
     (if length entries = 0 then None else Some (portfolioTotals entries))"


text \<open>A position of the given name, value and APY, as \<^verbatim>\<open>trackPosition\<close> stores it.\<close>

definition samplePosition :: "string \<Rightarrow> real \<Rightarrow> real \<Rightarrow> string \<times> position" where
  "samplePosition name v a =
     (name, \<lparr>pos_name = name, pos_token = ''JLP'', pos_type = ''hold'', pos_balance = v,
             pos_price = 1, pos_value = v, pos_apy = a, pos_notes = [],
             pos_lastUpdated = 1700000000000\<rparr>)"


section \<open>Properties of the simulator\<close>

lemma length_pricePathLoop:
  "length (pricePathLoop dd dv rnd k price n) = n"
  by (induction n arbitrary: k price) (simp_all add: Let_def)

lemma PRICE_SCENARIOS_stable:
  "PRICE_SCENARIOS ''stable'' = Some \<lparr>drift = 0, volatility = 0.02\<rparr>"
  by (simp add: PRICE_SCENARIOS_def)

lemma simulatePricePath_known:
  assumes "PRICE_SCENARIOS scenario = Some sc"
  shows "simulatePricePath p days scenario rnd k =
           Inr (p # pricePathLoop (drift sc / 365) (volatility sc / sqrt 365) rnd k p (nat days),
                k + nat days)"
  using assms by (simp add: simulatePricePath_def)

text \<open>
  \<^bold>\<open>C8.\<close> For every start price \<open>p\<close> and every integer \<open>days \<ge> 0\<close>, \<^verbatim>\<open>simulatePricePath\<close>
  returns, for each scenario of the table, an array of exactly \<open>days + 1\<close> prices whose
  first element is \<open>p\<close>, and exactly \<open>[p]\<close> for \<open>days = 0\<close>. The loop does so for every
  daily drift and volatility and every random sequence.
\<close>

theorem simulatePricePath_length:
  assumes "0 \<le> days" and "PRICE_SCENARIOS scenario \<noteq> None"
  shows "(\<exists>prices k'. simulatePricePath p days scenario rnd k = Inr (prices, k')
            \<and> int (length prices) = days + 1 \<and> prices ! 0 = p
            \<and> (days = 0 \<longrightarrow> prices = [p]))
       \<and> int (length (p # pricePathLoop dailyDrift dailyVol rnd k p (nat days))) = days + 1
       \<and> (days = 0 \<longrightarrow> p # pricePathLoop dailyDrift dailyVol rnd k p (nat days) = [p])"
proof -
  from assms(2) obtain sc where sc: "PRICE_SCENARIOS scenario = Some sc" by blast
  have "\<exists>prices k'. simulatePricePath p days scenario rnd k = Inr (prices, k')
           \<and> int (length prices) = days + 1 \<and> prices ! 0 = p
           \<and> (days = 0 \<longrightarrow> prices = [p])"
    using assms(1) by (simp add: simulatePricePath_known [OF sc] length_pricePathLoop)
  moreover have "int (length (p # pricePathLoop dailyDrift dailyVol rnd k p (nat days))) = days + 1"
    using assms(1) by (simp add: length_pricePathLoop)
  ultimately show ?thesis by simp
qed

theorem simulatePricePath_length_witness:
  "(\<exists>prices k'. simulatePricePath 100 3 ''bullish'' (\<lambda>i. 0.5) 0 = Inr (prices, k')
      \<and> length prices = 4 \<and> prices ! 0 = 100)
   \<and> (\<exists>k'. simulatePricePath 100 0 ''volatile'' (\<lambda>i. 0.5) 0 = Inr ([100], k'))"
  using simulatePricePath_length [of 3 "''bullish''" 100 "\<lambda>i. 0.5" 0]
        simulatePricePath_length [of 0 "''volatile''" 100 "\<lambda>i. 0.5" 0]
  by (simp add: PRICE_SCENARIOS_def)

lemma trialsLoop_ok:
  "\<exists>results k'. trialsLoop P apy days rnd k n = Inr (results, k') \<and> length results = n"
proof (induction n arbitrary: k)
  case 0
  then show ?case by simp
next
  case (Suc n)
  obtain results k'' where
    "trialsLoop P apy days rnd (k + nat days) n = Inr (results, k'')" "length results = n"
    using Suc [of "k + nat days"] by blast
  then show ?case
    by (simp add: simulatePricePath_known [OF PRICE_SCENARIOS_stable] Let_def)
qed

lemma rank_index_bounds:
  fixes n :: int and r :: real
  assumes "1 \<le> n" "0 \<le> r" "r < 1"
  shows "0 \<le> \<lfloor>real_of_int n * r\<rfloor> \<and> \<lfloor>real_of_int n * r\<rfloor> < n"
proof -
  have "real_of_int n * r < real_of_int n" using assms by simp
  then have "\<lfloor>real_of_int n * r\<rfloor> < n" by (simp add: floor_less_iff)
  moreover have "0 \<le> real_of_int n * r" using assms by simp
  ultimately show ?thesis by simp
qed

lemma rank_index_mono:
  fixes n :: int and r s :: real
  assumes "0 \<le> n" "r \<le> s"
  shows "\<lfloor>real_of_int n * r\<rfloor> \<le> \<lfloor>real_of_int n * s\<rfloor>"
  using assms by (intro floor_mono mult_left_mono) simp_all

lemma at_index_in_range:
  "0 \<le> i \<Longrightarrow> i < int (length xs) \<Longrightarrow> at_index xs i = Some (xs ! nat i)"
  by (simp add: at_index_def)

lemma percentile_defined:
  fixes n :: int and r :: real
  assumes "1 \<le> n" "int (length xs) = n" "0 \<le> r" "r < 1"
  shows "at_index xs \<lfloor>real_of_int n * r\<rfloor> = Some (xs ! nat \<lfloor>real_of_int n * r\<rfloor>)"
  using rank_index_bounds [OF assms(1,3,4)] assms(2) by (intro at_index_in_range) simp_all

lemma sorted_key_nth_mono:
  assumes "sorted (map f xs)" "0 \<le> i" "i \<le> j" "j < int (length xs)"
  shows "f (xs ! nat i) \<le> f (xs ! nat j)"
proof -
  have "map f xs ! nat i \<le> map f xs ! nat j"
    using assms by (intro sorted_nth_mono) simp_all
  then show ?thesis using assms by simp
qed

text \<open>
  \<^bold>\<open>C4.\<close> \<^verbatim>\<open>runMonteCarlo\<close> collects the results of all \<open>iterations\<close> trials, ranks them
  by ascending \<open>totalValue\<close> (the ranked array is a permutation of the results) and returns
  the records of the ranked array at the indices \<open>\<lfloor>iterations * rank\<rfloor>\<close> for the ranks
  0.05, 0.25, 0.5, 0.75 and 0.95; so \<open>totalValue\<close> does not decrease from \<open>worst\<close> to \<open>p25\<close>,
  \<open>median\<close>, \<open>p75\<close> and \<open>best\<close>. This holds from one iteration on, hence for every
  number of iterations from 5 on.
\<close>

theorem runMonteCarlo_percentiles:
  assumes "1 \<le> iterations"
  shows "\<exists>results ranked k'.
           trialsLoop P apy days rnd k (nat iterations) = Inr (results, k')
         \<and> int (length results) = iterations
         \<and> mset ranked = mset results
         \<and> sorted (map totalValue ranked)
         \<and> runMonteCarlo P apy days iterations rnd k =
             Inr (\<lparr>worst = Some (ranked ! nat \<lfloor>real_of_int iterations * 0.05\<rfloor>),
                   p25 = Some (ranked ! nat \<lfloor>real_of_int iterations * 0.25\<rfloor>),
                   median = Some (ranked ! nat \<lfloor>real_of_int iterations * 0.5\<rfloor>),
                   p75 = Some (ranked ! nat \<lfloor>real_of_int iterations * 0.75\<rfloor>),
                   best = Some (ranked ! nat \<lfloor>real_of_int iterations * 0.95\<rfloor>)\<rparr>, k')
         \<and> totalValue (ranked ! nat \<lfloor>real_of_int iterations * 0.05\<rfloor>)
              \<le> totalValue (ranked ! nat \<lfloor>real_of_int iterations * 0.25\<rfloor>)
         \<and> totalValue (ranked ! nat \<lfloor>real_of_int iterations * 0.25\<rfloor>)
              \<le> totalValue (ranked ! nat \<lfloor>real_of_int iterations * 0.5\<rfloor>)
         \<and> totalValue (ranked ! nat \<lfloor>real_of_int iterations * 0.5\<rfloor>)
              \<le> totalValue (ranked ! nat \<lfloor>real_of_int iterations * 0.75\<rfloor>)
         \<and> totalValue (ranked ! nat \<lfloor>real_of_int iterations * 0.75\<rfloor>)
              \<le> totalValue (ranked ! nat \<lfloor>real_of_int iterations * 0.95\<rfloor>)"
proof -
  obtain results k' where
    loop: "trialsLoop P apy days rnd k (nat iterations) = Inr (results, k')"
    and len: "length results = nat iterations"
    using trialsLoop_ok by blast
  define ranked where "ranked = sort_key totalValue results"
  have n: "int (length ranked) = iterations" using len assms by (simp add: ranked_def)
  have srt: "sorted (map totalValue ranked)" by (simp add: ranked_def)
  have perm: "mset ranked = mset results" by (simp add: ranked_def)
  have b: "at_index ranked \<lfloor>real_of_int iterations * r\<rfloor>
             = Some (ranked ! nat \<lfloor>real_of_int iterations * r\<rfloor>)"
    if "0 \<le> r" "r < 1" for r :: real
    using percentile_defined [OF assms n that] .
  have m: "totalValue (ranked ! nat \<lfloor>real_of_int iterations * r\<rfloor>)
             \<le> totalValue (ranked ! nat \<lfloor>real_of_int iterations * s\<rfloor>)"
    if rs: "0 \<le> r" "r \<le> s" "s < 1" for r s :: real
  proof -
    have "0 \<le> \<lfloor>real_of_int iterations * r\<rfloor>"
      using rank_index_bounds [OF assms, of r] rs by simp
    moreover have "\<lfloor>real_of_int iterations * r\<rfloor> \<le> \<lfloor>real_of_int iterations * s\<rfloor>"
      using rank_index_mono [of iterations r s] assms rs by simp
    moreover have "\<lfloor>real_of_int iterations * s\<rfloor> < int (length ranked)"
      using rank_index_bounds [OF assms, of s] rs n by simp
    ultimately show ?thesis
      using srt by (intro sorted_key_nth_mono)
  qed
  have run: "runMonteCarlo P apy days iterations rnd k =
             Inr (\<lparr>worst = Some (ranked ! nat \<lfloor>real_of_int iterations * 0.05\<rfloor>),
                   p25 = Some (ranked ! nat \<lfloor>real_of_int iterations * 0.25\<rfloor>),
                   median = Some (ranked ! nat \<lfloor>real_of_int iterations * 0.5\<rfloor>),
                   p75 = Some (ranked ! nat \<lfloor>real_of_int iterations * 0.75\<rfloor>),
                   best = Some (ranked ! nat \<lfloor>real_of_int iterations * 0.95\<rfloor>)\<rparr>, k')"
    using b [of "0.05"] b [of "0.25"] b [of "0.5"] b [of "0.75"] b [of "0.95"]
    by (simp add: runMonteCarlo_def loop ranked_def [symmetric])
  show ?thesis
    using loop len assms perm srt run
      m [of "0.05" "0.25"] m [of "0.25" "0.5"] m [of "0.5" "0.75"] m [of "0.75" "0.95"]
    by (intro exI [of _ results] exI [of _ ranked] exI [of _ k']) simp
qed

theorem runMonteCarlo_percentiles_witness:
  "\<exists>results ranked k'.
           trialsLoop 10000 14.5 30 (\<lambda>i. if even i then 0.25 else 0.75) 0 (nat 5) = Inr (results, k')
         \<and> int (length results) = 5
         \<and> mset ranked = mset results
         \<and> sorted (map totalValue ranked)
         \<and> runMonteCarlo 10000 14.5 30 5 (\<lambda>i. if even i then 0.25 else 0.75) 0 =
             Inr (\<lparr>worst = Some (ranked ! nat \<lfloor>real_of_int 5 * 0.05\<rfloor>),
                   p25 = Some (ranked ! nat \<lfloor>real_of_int 5 * 0.25\<rfloor>),
                   median = Some (ranked ! nat \<lfloor>real_of_int 5 * 0.5\<rfloor>),
                   p75 = Some (ranked ! nat \<lfloor>real_of_int 5 * 0.75\<rfloor>),
                   best = Some (ranked ! nat \<lfloor>real_of_int 5 * 0.95\<rfloor>)\<rparr>, k')
         \<and> totalValue (ranked ! nat \<lfloor>real_of_int 5 * 0.05\<rfloor>)
              \<le> totalValue (ranked ! nat \<lfloor>real_of_int 5 * 0.25\<rfloor>)
         \<and> totalValue (ranked ! nat \<lfloor>real_of_int 5 * 0.25\<rfloor>)
              \<le> totalValue (ranked ! nat \<lfloor>real_of_int 5 * 0.5\<rfloor>)
         \<and> totalValue (ranked ! nat \<lfloor>real_of_int 5 * 0.5\<rfloor>)
              \<le> totalValue (ranked ! nat \<lfloor>real_of_int 5 * 0.75\<rfloor>)
         \<and> totalValue (ranked ! nat \<lfloor>real_of_int 5 * 0.75\<rfloor>)
              \<le> totalValue (ranked ! nat \<lfloor>real_of_int 5 * 0.95\<rfloor>)"
  by (rule runMonteCarlo_percentiles) simp

lemma Math_pow_zero: "Math_pow x 0 = 1"
  by (simp add: Math_pow_def)

lemma Math_pow_one: "Math_pow 1 y = 1"
  by (simp add: Math_pow_def)

text \<open>
  \<^bold>\<open>C9.\<close> The numeric kernel does not validate its input and never throws.
  \<^verbatim>\<open>runMonteCarlo\<close> returns for every principal, APY, number of days, number of iterations
  and random sequence, and with at least one iteration its five records are defined,
  whatever the sign of the principal and of the days. \<^verbatim>\<open>simulatePricePath\<close> returns a
  non-empty array for every start price and every number of days, for each scenario of
  the table, and \<open>[p]\<close> for a negative number of days. \<^verbatim>\<open>calculateCompoundInterest\<close> is
  an arithmetic expression; with a zero APY, or with zero days, it returns the principal,
  for every other argument and every non-zero compounding frequency, negative ones
  included.
\<close>

theorem kernel_never_throws:
  "(\<exists>S k'. runMonteCarlo P apy days iterations rnd k = Inr (S, k')
       \<and> (1 \<le> iterations \<longrightarrow>
            worst S \<noteq> None \<and> p25 S \<noteq> None \<and> median S \<noteq> None \<and> p75 S \<noteq> None \<and> best S \<noteq> None))
   \<and> (PRICE_SCENARIOS scenario \<noteq> None \<longrightarrow>
        (\<exists>prices k'. simulatePricePath p days scenario rnd k = Inr (prices, k')
           \<and> prices \<noteq> [] \<and> (days < 0 \<longrightarrow> prices = [p])))
   \<and> (f \<noteq> 0 \<longrightarrow> calculateCompoundInterest P 0 D f = P)
   \<and> (f \<noteq> 0 \<longrightarrow> calculateCompoundInterest P A 0 f = P)"
proof -
  have 1: "\<exists>S k'. runMonteCarlo P apy days iterations rnd k = Inr (S, k')
       \<and> (1 \<le> iterations \<longrightarrow>
            worst S \<noteq> None \<and> p25 S \<noteq> None \<and> median S \<noteq> None \<and> p75 S \<noteq> None \<and> best S \<noteq> None)"
  proof -
    obtain results k' where
      loop: "trialsLoop P apy days rnd k (nat iterations) = Inr (results, k')"
      and len: "length results = nat iterations"
      using trialsLoop_ok by blast
    have "at_index (sort_key totalValue results) \<lfloor>real_of_int iterations * r\<rfloor> \<noteq> None"
      if "1 \<le> iterations" "0 \<le> r" "r < 1" for r :: real
      using percentile_defined [of iterations "sort_key totalValue results" r] that len by simp
    from this [of "0.05"] this [of "0.25"] this [of "0.5"] this [of "0.75"] this [of "0.95"]
    show ?thesis by (auto simp add: runMonteCarlo_def loop Let_def)
  qed
  have 2: "\<exists>prices k'. simulatePricePath p days scenario rnd k = Inr (prices, k')
           \<and> prices \<noteq> [] \<and> (days < 0 \<longrightarrow> prices = [p])"
    if "PRICE_SCENARIOS scenario \<noteq> None"
  proof -
    from that obtain sc where "PRICE_SCENARIOS scenario = Some sc" by blast
    then show ?thesis by (simp add: simulatePricePath_known)
  qed
  have 3: "calculateCompoundInterest P 0 D f = P"
    by (simp add: calculateCompoundInterest_def Math_pow_one)
  have 4: "calculateCompoundInterest P A 0 f = P"
    by (simp add: calculateCompoundInterest_def Math_pow_zero)
  show ?thesis using 1 2 3 4 by blast
qed

theorem kernel_never_throws_witness:
  "(\<exists>S k'. runMonteCarlo (- 1000) 14.5 (- 5) 5 (\<lambda>i. 0.25) 0 = Inr (S, k')
       \<and> worst S \<noteq> None \<and> p25 S \<noteq> None \<and> median S \<noteq> None \<and> p75 S \<noteq> None \<and> best S \<noteq> None)
   \<and> (\<exists>k'. simulatePricePath (- 3) (- 5) ''bearish'' (\<lambda>i. 0.25) 0 = Inr ([- 3], k'))
   \<and> calculateCompoundInterest (- 1000) 0 10 (- 12) = - 1000
   \<and> calculateCompoundInterest (- 1000) 14.5 0 (- 12) = - 1000"
  using kernel_never_throws [where P = "- 1000" and apy = "14.5" and days = "- 5"
      and iterations = 5 and rnd = "\<lambda>i. 0.25" and k = 0 and scenario = "''bearish''"
      and p = "- 3" and f = "- 12" and D = 10 and A = "14.5"]
  by (auto simp add: PRICE_SCENARIOS_def)

section \<open>Properties of the trade analytics\<close>

lemma foldl_add_sum_list:
  fixes a :: real
  shows "foldl (\<lambda>sum t. sum + f t) a xs = a + sum_list (map f xs)"
  by (induction xs arbitrary: a) simp_all

lemma sumPnl_sum_list: "sumPnl ts = sum_list (map pnl_num ts)"
  by (simp add: sumPnl_def foldl_add_sum_list)

lemma sumFees_sum_list: "sumFees ts = sum_list (map fees_num ts)"
  by (simp add: sumFees_def foldl_add_sum_list)

lemma sum_list_sort_key:
  fixes f :: "'a \<Rightarrow> real"
  shows "sum_list (map f (sort_key k xs)) = sum_list (map f xs)"
proof -
  have "sum_list (map f (sort_key k xs)) = sum_mset (image_mset f (mset (sort_key k xs)))"
    by (metis mset_map sum_mset_sum_list)
  also have "\<dots> = sum_mset (image_mset f (mset xs))" by simp
  also have "\<dots> = sum_list (map f xs)" by (metis mset_map sum_mset_sum_list)
  finally show ?thesis .
qed

lemma sort_key_Nil_iff: "sort_key f xs = [] \<longleftrightarrow> xs = []"
  by (metis length_sort length_0_conv)

lemma filterTrades_Nil: "filterTrades flt [] = []"
  by (simp add: filterTrades_def Let_def split: option.splits list.splits)

lemma closedOf_Nil: "closedOf [] = []"
  by (simp add: closedOf_def)

lemma sums_Nil: "sumPnl [] = 0" "sumFees [] = 0"
  by (simp_all add: sumPnl_def sumFees_def)

lemma Max_image_prefixes_snoc:
  fixes g :: "'a list \<Rightarrow> real"
  shows "Max (g ` set (prefixes (xs @ [x]))) = max (Max (g ` set (prefixes xs))) (g (xs @ [x]))"
proof -
  have "g ` set (prefixes (xs @ [x])) = insert (g (xs @ [x])) (g ` set (prefixes xs))"
    by simp
  moreover have "finite (g ` set (prefixes xs))" by simp
  moreover have "g ` set (prefixes xs) \<noteq> {}" by (cases xs rule: rev_cases) simp_all
  ultimately show ?thesis by (simp add: max.commute)
qed

lemma tl_prefixes_snoc: "tl (prefixes (xs @ [x])) = tl (prefixes xs) @ [xs @ [x]]"
  by simp

lemma spec_equity_snoc: "spec_equity (xs @ [x]) = spec_equity xs + pnl_num x"
  by (simp add: spec_equity_def)

lemma replay_closed_form:
  "foldl replay_step replay_init xs =
     \<lparr>r_equity = spec_equity xs,
      r_peakEquity = spec_peak xs,
      r_maxDrawdown = Max (spec_drawdown ` set (prefixes xs)),
      r_maxDrawdownPercent = Max (spec_drawdownPercent ` set (prefixes xs)),
      r_equityCurve = map spec_point (tl (prefixes xs))\<rparr>"
proof (induction xs rule: rev_induct)
  case Nil
  show ?case
    by (simp add: replay_init_def spec_equity_def spec_peak_def spec_drawdown_def
        spec_drawdownPercent_def)
next
  case (snoc x xs)
  have pk: "spec_peak (xs @ [x]) = max (spec_peak xs) (spec_equity xs + pnl_num x)"
    using Max_image_prefixes_snoc [of spec_equity xs x]
    by (simp add: spec_peak_def spec_equity_snoc)
  have dd: "spec_drawdown (xs @ [x]) = max (spec_peak xs) (spec_equity xs + pnl_num x) - (spec_equity xs + pnl_num x)"
    by (simp add: spec_drawdown_def pk spec_equity_snoc)
  have ddp: "spec_drawdownPercent (xs @ [x]) =
      (if max (spec_peak xs) (spec_equity xs + pnl_num x) > 0
       then ((max (spec_peak xs) (spec_equity xs + pnl_num x) - (spec_equity xs + pnl_num x))
              / max (spec_peak xs) (spec_equity xs + pnl_num x)) * 100 else 0)"
    by (simp add: spec_drawdownPercent_def dd pk not_less)
  have pt: "spec_point (xs @ [x]) =
      \<lparr>date = timestamp x, equity = spec_equity xs + pnl_num x,
       drawdown = spec_drawdown (xs @ [x]), drawdownPercent = spec_drawdownPercent (xs @ [x])\<rparr>"
    by (simp add: spec_point_def spec_equity_snoc)
  show ?case
    unfolding foldl_append foldl_Cons foldl_Nil snoc.IH
    by (simp add: replay_step_def Let_def Max_image_prefixes_snoc tl_prefixes_snoc
        pt pk spec_equity_snoc dd ddp max.commute)
qed

lemma calculateAnalytics_replay_fields:
  "equityCurve (calculateAnalytics ts flt)
     = r_equityCurve (foldl replay_step replay_init (sort_key timestamp (closedOf (filterTrades flt ts))))"
  "maxDrawdown (a_summary (calculateAnalytics ts flt))
     = r_maxDrawdown (foldl replay_step replay_init (sort_key timestamp (closedOf (filterTrades flt ts))))"
  "maxDrawdownPercent (a_summary (calculateAnalytics ts flt))
     = r_maxDrawdownPercent (foldl replay_step replay_init (sort_key timestamp (closedOf (filterTrades flt ts))))"
  "currentEquity (a_summary (calculateAnalytics ts flt))
     = r_equity (foldl replay_step replay_init (sort_key timestamp (closedOf (filterTrades flt ts))))"
  "totalPnL (a_summary (calculateAnalytics ts flt))
     = sumPnl (sort_key timestamp (closedOf (filterTrades flt ts)))"
  by (simp_all add: calculateAnalytics_def Let_def)

lemma length_equityCurve:
  "length (equityCurve (calculateAnalytics ts flt)) = length (closedOf (filterTrades flt ts))"
  by (simp add: calculateAnalytics_replay_fields replay_closed_form)

lemma replay_three:
  assumes "map pnl rs = [Some 100, Some (- 50), Some 30]"
  shows "map equity (r_equityCurve (foldl replay_step replay_init rs)) = [100, 50, 80]
       \<and> r_maxDrawdown (foldl replay_step replay_init rs) = 50
       \<and> r_maxDrawdownPercent (foldl replay_step replay_init rs) = 50"
proof -
  from assms obtain a b c where rs: "rs = [a, b, c]"
    and p: "pnl a = Some 100" "pnl b = Some (- 50)" "pnl c = Some 30"
    by auto
  show ?thesis
    by (simp add: rs replay_step_def replay_init_def pnl_num_def p Let_def)
qed

lemma sampleTrade_sel:
  "timestamp (sampleTrade stamp sd p) = stamp"
  "pnl (sampleTrade stamp sd p) = Some p"
  "pnl_num (sampleTrade stamp sd p) = p"
  "status (sampleTrade stamp sd p) = ''closed''"
  by (simp_all add: sampleTrade_def pnl_num_def)

lemma filterTrades_noFilters: "filterTrades noFilters ts = ts"
  by (simp add: filterTrades_def noFilters_def truthy_str_def)

lemma closedOf_samples:
  "closedOf (filterTrades noFilters (map (\<lambda>(stamp, sd, p). sampleTrade stamp sd p) xs))
     = map (\<lambda>(stamp, sd, p). sampleTrade stamp sd p) xs"
  unfolding filterTrades_noFilters closedOf_def
  by (induction xs) (auto simp: sampleTrade_sel)

lemma samples_3_1_2:
  "sort_key timestamp (closedOf (filterTrades noFilters
      [sampleTrade 3 ''long'' 30, sampleTrade 1 ''long'' 100, sampleTrade 2 ''short'' (- 50)]))
     = [sampleTrade 1 ''long'' 100, sampleTrade 2 ''short'' (- 50), sampleTrade 3 ''long'' 30]"
  using closedOf_samples [of "[(3, ''long'', 30), (1, ''long'', 100), (2, ''short'', - 50)]"]
  by (simp add: sampleTrade_sel)

text \<open>
  \<^bold>\<open>C3.\<close> \<^verbatim>\<open>calculateAnalytics\<close> replays the closed trades of the filtered list (status
  closed, pnl not null) in ascending order of their instants: the replay order \<open>rs\<close> is a
  permutation of them, sorted by timestamp. The equity curve has one point for each
  non-empty prefix of \<open>rs\<close>, in order, holding the running equity, the drawdown (peak minus
  equity) and the drawdown percent (drawdown / peak * 100, 0 when the peak is not
  positive) after that step, where the peak is the greatest equity so far, counted from
  the equity 0 before the first trade; \<open>maxDrawdown\<close> and \<open>maxDrawdownPercent\<close> are the
  maxima over the whole replay. When the chronological pnl are 100, -50 and 30, the
  equities of the curve are 100, 50 and 80 and both maxima are 50.
\<close>

theorem calculateAnalytics_replay:
  "let rs = sort_key timestamp (closedOf (filterTrades flt ts));
       A = calculateAnalytics ts flt
   in mset rs = mset (closedOf (filterTrades flt ts))
    \<and> sorted (map timestamp rs)
    \<and> equityCurve A = map spec_point (tl (prefixes rs))
    \<and> maxDrawdown (a_summary A) = Max (spec_drawdown ` set (prefixes rs))
    \<and> maxDrawdownPercent (a_summary A) = Max (spec_drawdownPercent ` set (prefixes rs))
    \<and> (map pnl rs = [Some 100, Some (- 50), Some 30] \<longrightarrow>
         map equity (equityCurve A) = [100, 50, 80]
         \<and> maxDrawdown (a_summary A) = 50 \<and> maxDrawdownPercent (a_summary A) = 50)"
  unfolding Let_def calculateAnalytics_replay_fields
  using replay_three [of "sort_key timestamp (closedOf (filterTrades flt ts))"]
  by (simp add: replay_closed_form)

theorem calculateAnalytics_replay_witness:
  "map equity (equityCurve (calculateAnalytics
       [sampleTrade 3 ''long'' 30, sampleTrade 1 ''long'' 100, sampleTrade 2 ''short'' (- 50)] noFilters)) = [100, 50, 80]
   \<and> maxDrawdown (a_summary (calculateAnalytics
       [sampleTrade 3 ''long'' 30, sampleTrade 1 ''long'' 100, sampleTrade 2 ''short'' (- 50)] noFilters)) = 50
   \<and> maxDrawdownPercent (a_summary (calculateAnalytics
       [sampleTrade 3 ''long'' 30, sampleTrade 1 ''long'' 100, sampleTrade 2 ''short'' (- 50)] noFilters)) = 50"
proof -
  have "map pnl (sort_key timestamp (closedOf (filterTrades noFilters
      [sampleTrade 3 ''long'' 30, sampleTrade 1 ''long'' 100, sampleTrade 2 ''short'' (- 50)])))
     = [Some 100, Some (- 50), Some 30]"
    unfolding samples_3_1_2 by (simp add: sampleTrade_sel)
  with calculateAnalytics_replay
    [of noFilters "[sampleTrade 3 ''long'' 30, sampleTrade 1 ''long'' 100, sampleTrade 2 ''short'' (- 50)]"]
  show ?thesis unfolding Let_def by blast
qed

text \<open>
  \<^bold>\<open>C5.\<close> On the empty list of trades, whatever the filters, \<^verbatim>\<open>calculateAnalytics\<close>
  returns the neutral result: every count, rate, sum, average, the profit factor, both
  drawdown maxima, the equities, the bias and the fee statistics are 0, and the equity
  curve and the list of trades are empty. No step of the function can throw.
\<close>

theorem calculateAnalytics_empty:
  "calculateAnalytics [] flt =
     \<lparr>a_summary = \<lparr>totalTrades = 0, closedTrades = 0, openTrades = 0, winRate = 0, totalPnL = 0,
                   avgWin = 0, avgLoss = 0, profitFactor = 0, maxDrawdown = 0,
                   maxDrawdownPercent = 0, currentEquity = 0, peakEquity = 0\<rparr>,
      a_bias = \<lparr>longCount = 0, shortCount = 0, longPercent = 0, shortPercent = 0, longPnL = 0,
                shortPnL = 0\<rparr>,
      a_fees = \<lparr>totalFees = 0, avgFeePerTrade = 0, feePercentOfPnL = 0\<rparr>,
      equityCurve = [],
      a_trades = []\<rparr>"
  unfolding calculateAnalytics_def filterTrades_Nil closedOf_Nil Let_def
  by (simp add: replay_init_def sums_Nil)

lemma sum_list_neg:
  fixes f :: "'a \<Rightarrow> real"
  assumes "xs \<noteq> []" "\<forall>x\<in>set xs. f x < 0"
  shows "sum_list (map f xs) < 0"
  using assms
proof (induction xs)
  case Nil
  then show ?case by simp
next
  case (Cons a xs)
  show ?case
  proof (cases "xs = []")
    case True
    with Cons.prems show ?thesis by simp
  next
    case False
    with Cons have "sum_list (map f xs) < 0" by simp
    with Cons.prems show ?thesis by simp
  qed
qed

text \<open>
  \<^bold>\<open>C6.\<close> When no closed trade of the filtered list has a negative pnl, \<open>profitFactor\<close>
  is 0 (also when there are winners, that is when \<open>winRate\<close> is positive); when there are
  losers, it is the sum of the positive pnl divided by the absolute value of the sum of
  the negative pnl.
\<close>

theorem profitFactor_cases:
  "let closed = closedOf (filterTrades flt ts);
       winners = filter (\<lambda>t. 0 < pnl_num t) closed;
       losers = filter (\<lambda>t. pnl_num t < 0) closed;
       S = a_summary (calculateAnalytics ts flt)
   in (losers = [] \<longrightarrow> profitFactor S = 0)
    \<and> (losers \<noteq> [] \<longrightarrow>
         profitFactor S = sum_list (map pnl_num winners) / \<bar>sum_list (map pnl_num losers)\<bar>)
    \<and> (0 < winRate S \<longleftrightarrow> winners \<noteq> [])"
proof -
  define closed where "closed = closedOf (filterTrades flt ts)"
  define winners where "winners = filter (\<lambda>t. 0 < pnl_num t) closed"
  define losers where "losers = filter (\<lambda>t. pnl_num t < 0) closed"
  define S where "S = a_summary (calculateAnalytics ts flt)"
  have pf: "profitFactor S = (if length losers > 0 \<and> \<bar>sumPnl losers\<bar> > 0
                             then sumPnl winners / \<bar>sumPnl losers\<bar> else 0)"
    by (simp add: S_def calculateAnalytics_def Let_def losers_def winners_def closed_def)
  have wr: "winRate S = (if length closed > 0
                         then (real (length winners) / real (length closed)) * 100 else 0)"
    by (simp add: S_def calculateAnalytics_def Let_def winners_def closed_def sort_key_Nil_iff)
  have 1: "profitFactor S = 0" if "losers = []"
    using that by (simp add: pf)
  have 2: "profitFactor S = sum_list (map pnl_num winners) / \<bar>sum_list (map pnl_num losers)\<bar>"
    if "losers \<noteq> []"
  proof -
    have "\<forall>t\<in>set losers. pnl_num t < 0" by (simp add: losers_def)
    with that have "sum_list (map pnl_num losers) < 0" by (rule sum_list_neg)
    with that show ?thesis by (simp add: pf sumPnl_sum_list)
  qed
  have 3: "0 < winRate S \<longleftrightarrow> winners \<noteq> []"
  proof (cases "winners = []")
    case True
    then show ?thesis by (simp add: wr)
  next
    case False
    then have "closed \<noteq> []" by (auto simp: winners_def)
    with False show ?thesis by (simp add: wr sort_key_Nil_iff)
  qed
  show ?thesis
    unfolding Let_def closed_def [symmetric] winners_def [symmetric] losers_def [symmetric]
      S_def [symmetric]
    using 1 2 3 by blast
qed

theorem profitFactor_cases_witness:
  "profitFactor (a_summary (calculateAnalytics
       [sampleTrade 1 ''long'' 100, sampleTrade 2 ''long'' 30] noFilters)) = 0
   \<and> 0 < winRate (a_summary (calculateAnalytics
       [sampleTrade 1 ''long'' 100, sampleTrade 2 ''long'' 30] noFilters))
   \<and> profitFactor (a_summary (calculateAnalytics
       [sampleTrade 1 ''long'' 100, sampleTrade 2 ''short'' (- 50), sampleTrade 3 ''long'' 30] noFilters)) = 13 / 5"
proof -
  have c1: "closedOf (filterTrades noFilters [sampleTrade 1 ''long'' 100, sampleTrade 2 ''long'' 30])
              = [sampleTrade 1 ''long'' 100, sampleTrade 2 ''long'' 30]"
    using closedOf_samples [of "[(1, ''long'', 100), (2, ''long'', 30)]"] by simp
  have c2: "closedOf (filterTrades noFilters
              [sampleTrade 1 ''long'' 100, sampleTrade 2 ''short'' (- 50), sampleTrade 3 ''long'' 30])
              = [sampleTrade 1 ''long'' 100, sampleTrade 2 ''short'' (- 50), sampleTrade 3 ''long'' 30]"
    using closedOf_samples [of "[(1, ''long'', 100), (2, ''short'', - 50), (3, ''long'', 30)]"] by simp
  show ?thesis
    using profitFactor_cases [of noFilters "[sampleTrade 1 ''long'' 100, sampleTrade 2 ''long'' 30]"]
          profitFactor_cases [of noFilters
            "[sampleTrade 1 ''long'' 100, sampleTrade 2 ''short'' (- 50), sampleTrade 3 ''long'' 30]"]
    unfolding Let_def c1 c2 by (simp add: sampleTrade_sel)
qed

text \<open>
  \<^bold>\<open>C10.\<close> For every list of trades and all filters, \<open>currentEquity\<close> equals \<open>totalPnL\<close>,
  which is the sum of the pnl of the closed trades of the filtered list; and when the
  equity curve is not empty, the equity of its last point equals \<open>totalPnL\<close> too.
\<close>

theorem currentEquity_totalPnL:
  "let A = calculateAnalytics ts flt; S = a_summary A
   in currentEquity S = totalPnL S
    \<and> totalPnL S = sum_list (map pnl_num (closedOf (filterTrades flt ts)))
    \<and> (equityCurve A \<noteq> [] \<longrightarrow> equity (last (equityCurve A)) = totalPnL S)"
proof -
  define rs where "rs = sort_key timestamp (closedOf (filterTrades flt ts))"
  have eq: "r_equity (foldl replay_step replay_init rs) = sumPnl rs"
    by (simp add: replay_closed_form spec_equity_def sumPnl_sum_list)
  have tot: "sumPnl rs = sum_list (map pnl_num (closedOf (filterTrades flt ts)))"
    by (simp add: rs_def sumPnl_sum_list sum_list_sort_key)
  have crv: "r_equityCurve (foldl replay_step replay_init rs) = map spec_point (tl (prefixes rs))"
    by (simp add: replay_closed_form)
  have lst: "equity (last (r_equityCurve (foldl replay_step replay_init rs))) = sumPnl rs"
    if "r_equityCurve (foldl replay_step replay_init rs) \<noteq> []"
  proof (cases rs rule: rev_cases)
    case Nil
    with that show ?thesis by (simp add: replay_init_def)
  next
    case (snoc ys y)
    have "last (map spec_point (tl (prefixes rs))) = spec_point rs"
      unfolding snoc tl_prefixes_snoc by simp
    then show ?thesis
      unfolding crv by (simp add: spec_point_def spec_equity_def sumPnl_sum_list)
  qed
  show ?thesis
    unfolding Let_def calculateAnalytics_replay_fields rs_def [symmetric]
    using eq tot lst by simp
qed

theorem currentEquity_totalPnL_witness:
  "currentEquity (a_summary (calculateAnalytics
       [sampleTrade 3 ''long'' 30, sampleTrade 1 ''long'' 100, sampleTrade 2 ''short'' (- 50)] noFilters)) = 80
   \<and> totalPnL (a_summary (calculateAnalytics
       [sampleTrade 3 ''long'' 30, sampleTrade 1 ''long'' 100, sampleTrade 2 ''short'' (- 50)] noFilters)) = 80
   \<and> equity (last (equityCurve (calculateAnalytics
       [sampleTrade 3 ''long'' 30, sampleTrade 1 ''long'' 100, sampleTrade 2 ''short'' (- 50)] noFilters))) = 80"
proof -
  let ?ts = "[sampleTrade 3 ''long'' 30, sampleTrade 1 ''long'' 100, sampleTrade 2 ''short'' (- 50)]"
  let ?A = "calculateAnalytics ?ts noFilters"
  have c: "closedOf (filterTrades noFilters ?ts) = ?ts"
    using closedOf_samples [of "[(3, ''long'', 30), (1, ''long'', 100), (2, ''short'', - 50)]"] by simp
  have ne: "equityCurve ?A \<noteq> []"
    using length_equityCurve [of ?ts noFilters] unfolding c by auto
  have s: "sum_list (map pnl_num ?ts) = 80"
    by (simp add: sampleTrade_sel)
  from currentEquity_totalPnL [of ?ts noFilters]
  have "currentEquity (a_summary ?A) = totalPnL (a_summary ?A)"
    and "totalPnL (a_summary ?A) = 80"
    and "equityCurve ?A \<noteq> [] \<longrightarrow> equity (last (equityCurve ?A)) = totalPnL (a_summary ?A)"
    unfolding Let_def c s by blast+
  with ne show ?thesis by simp
qed


section \<open>Properties of the journal\<close>

lemma digits_small: "n < 10 \<Longrightarrow> digits n = [digit n]"
  by (simp add: digits.simps)

lemma digits_big: "10 \<le> n \<Longrightarrow> digits n = digits (n div 10) @ [digit (n mod 10)]"
  by (subst digits.simps) simp

lemma toString_example: "toString 1700000000000 = ''1700000000000''"
  by (simp add: toString_def digits_small digits_big digit_def char_of_def bit_0)

lemma undigits_snoc: "undigits (s @ [c]) = 10 * undigits s + (of_char c - 48)"
  by (simp add: undigits_def)

lemma of_char_digit: "d < 10 \<Longrightarrow> (of_char (digit d) :: nat) = 48 + d"
  by (simp add: digit_def)

lemma undigits_digits: "undigits (digits n) = n"
proof (induction n rule: digits.induct)
  case (1 n)
  show ?case
  proof (cases "n < 10")
    case True
    then show ?thesis by (simp add: digits_small undigits_def of_char_digit)
  next
    case False
    then have "undigits (digits (n div 10)) = n div 10" using 1 by simp
    with False show ?thesis
      by (simp add: digits_big undigits_snoc of_char_digit)
  qed
qed

lemma digit_not_minus: "d < 10 \<Longrightarrow> digit d \<noteq> CHR ''-''"
proof
  assume "d < 10" and "digit d = CHR ''-''"
  then have "(of_char (digit d) :: nat) = of_char (CHR ''-'')" by simp
  with \<open>d < 10\<close> show False by (simp add: of_char_digit)
qed

lemma hd_digits: "\<exists>d cs. d < 10 \<and> digits n = digit d # cs"
proof (induction n rule: digits.induct)
  case (1 n)
  show ?case
  proof (cases "n < 10")
    case True
    then show ?thesis by (auto simp: digits_small)
  next
    case False
    then obtain d cs where "d < 10" "digits (n div 10) = digit d # cs" using 1 by blast
    with False show ?thesis by (auto simp: digits_big)
  qed
qed

lemma toString_inj: "toString a = toString b \<longleftrightarrow> a = b"
proof
  assume eq: "toString a = toString b"
  obtain da ca where a: "da < 10" "digits (nat \<bar>a\<bar>) = digit da # ca" using hd_digits by blast
  obtain db cb where b: "db < 10" "digits (nat \<bar>b\<bar>) = digit db # cb" using hd_digits by blast
  have sgn: "a < 0 \<longleftrightarrow> b < 0"
  proof (rule ccontr)
    assume "\<not> ?thesis"
    then consider "a < 0" "\<not> b < 0" | "\<not> a < 0" "b < 0" by blast
    then show False
    proof cases
      case 1
      then have "toString a = CHR ''-'' # digits (nat \<bar>a\<bar>)" "toString b = digits (nat \<bar>b\<bar>)"
        by (simp_all add: toString_def abs_if)
      with eq b digit_not_minus [of db] show False by simp
    next
      case 2
      then have "toString b = CHR ''-'' # digits (nat \<bar>b\<bar>)" "toString a = digits (nat \<bar>a\<bar>)"
        by (simp_all add: toString_def abs_if)
      with eq a digit_not_minus [of da] show False by simp
    qed
  qed
  have "digits (nat \<bar>a\<bar>) = digits (nat \<bar>b\<bar>)"
    using eq sgn by (auto simp: toString_def abs_if split: if_splits)
  then have "undigits (digits (nat \<bar>a\<bar>)) = undigits (digits (nat \<bar>b\<bar>))" by simp
  then have "\<bar>a\<bar> = \<bar>b\<bar>" by (simp add: undigits_digits)
  with sgn show "a = b" by (auto simp: abs_if split: if_splits)
qed simp

lemma addTrade_fst_id:
  "tradeId (fst (addTrade now st sv tr j))
     = (case in_id tr of Some i \<Rightarrow> i | None \<Rightarrow> ''trade-'' @ toString now)"
  by (simp add: addTrade_def Let_def)

lemma addTrade_snd_trades:
  "trades (snd (addTrade now st sv tr j)) = trades j @ [fst (addTrade now st sv tr j)]"
  by (simp add: addTrade_def Let_def)

lemma addTrade_fst_pnl:
  "pnl (fst (addTrade now st sv tr j))
     = (case (in_exitPrice tr, in_entryPrice tr) of
          (Some exitP, Some entryP) \<Rightarrow>
            if exitP \<noteq> 0 \<and> entryP \<noteq> 0
            then Some ((if in_side tr = ''long'' then 1 else - 1) * (exitP - entryP) * in_size tr)
            else None
        | _ \<Rightarrow> None)"
  by (simp add: addTrade_def Let_def)

lemma addTrade_fst_fields:
  "status (fst (addTrade now st sv tr j)) = in_status tr"
  "side (fst (addTrade now st sv tr j)) = in_side tr"
  "tradeSize (fst (addTrade now st sv tr j)) = in_size tr"
  "entryPrice (fst (addTrade now st sv tr j)) = in_entryPrice tr"
  "exitPrice (fst (addTrade now st sv tr j)) = in_exitPrice tr"
  "symbol (fst (addTrade now st sv tr j)) = in_symbol tr"
  by (simp_all add: addTrade_def Let_def)

text \<open>
  \<^bold>\<open>C1.\<close> The claim that two calls of \<^verbatim>\<open>addTrade\<close> never get the same id fails: the id
  is \<^verbatim>\<open>trade-\<close> followed by \<^verbatim>\<open>Date.now()\<close>, so two calls in the same millisecond store
  two different trades under one id.
\<close>

theorem addTrade_same_millisecond:
  "symbol (fst firstAdd) \<noteq> symbol (fst secondAdd)
   \<and> tradeId (fst firstAdd) = tradeId (fst secondAdd)
   \<and> map tradeId (trades (snd secondAdd)) = [''trade-1700000000000'', ''trade-1700000000000'']"
  by (simp add: firstAdd_def secondAdd_def addTrade_snd_trades addTrade_fst_id addTrade_fst_fields
      exampleTrade_def newJournal_def toString_example)

text \<open>
  \<^bold>\<open>C1, as amended.\<close> Two successive calls of \<^verbatim>\<open>addTrade\<close> whose inputs carry no id of
  their own both append their trade to the journal, and the two ids are equal exactly
  when the two readings of \<^verbatim>\<open>Date.now()\<close> are: calls in different milliseconds get
  distinct ids.
\<close>

theorem addTrade_id_distinct:
  assumes "in_id a = None" and "in_id b = None"
  shows "trades (snd (addTrade now2 st2 sv2 b (snd (addTrade now1 st1 sv1 a j))))
           = trades j @ [fst (addTrade now1 st1 sv1 a j),
                         fst (addTrade now2 st2 sv2 b (snd (addTrade now1 st1 sv1 a j)))]
       \<and> (tradeId (fst (addTrade now1 st1 sv1 a j))
            = tradeId (fst (addTrade now2 st2 sv2 b (snd (addTrade now1 st1 sv1 a j))))
          \<longleftrightarrow> now1 = now2)"
  using assms by (simp add: addTrade_snd_trades addTrade_fst_id toString_inj)

theorem addTrade_id_distinct_witness:
  "tradeId (fst (addTrade 1700000000000 1700000000000 1700000000001 exampleTrade (newJournal 0)))
     \<noteq> tradeId (fst (addTrade 1700000000001 1700000000001 1700000000002 exampleTrade
           (snd (addTrade 1700000000000 1700000000000 1700000000001 exampleTrade (newJournal 0)))))"
  using addTrade_id_distinct [of exampleTrade exampleTrade 1700000000001 1700000000001
      1700000000002 1700000000000 1700000000000 1700000000001 "newJournal 0"]
  by (simp add: exampleTrade_def)

text \<open>
  \<^bold>\<open>C2.\<close> The claim that the stored pnl is defined exactly for the status closed fails:
  \<^verbatim>\<open>addTrade\<close> never reads the status. The example trade recorded with the status open
  gets the pnl 45, and recorded closed without an exit price it gets none.
\<close>

theorem addTrade_pnl_not_by_status:
  "status (fst openAdd) = ''open'' \<and> pnl (fst openAdd) = Some 45
   \<and> status (fst closedAdd) = ''closed'' \<and> pnl (fst closedAdd) = None"
  by (simp add: openAdd_def closedAdd_def addTrade_fst_pnl addTrade_fst_fields exampleTrade_def)

text \<open>
  \<^bold>\<open>C2, as amended.\<close> \<^verbatim>\<open>addTrade\<close> appends the stored trade to the journal with the
  status of its input; the stored pnl is defined exactly when the input has both an exit
  price and an entry price that are not 0, whatever the status, and then it is
  (1 for the side long, -1 otherwise) * (exitPrice - entryPrice) * size.
\<close>

theorem addTrade_pnl:
  "trades (snd (addTrade now st sv tr j)) = trades j @ [fst (addTrade now st sv tr j)]
   \<and> status (fst (addTrade now st sv tr j)) = in_status tr
   \<and> (pnl (fst (addTrade now st sv tr j)) \<noteq> None
        \<longleftrightarrow> truthy (in_exitPrice tr) \<and> truthy (in_entryPrice tr))
   \<and> (\<forall>exitP entryP. in_exitPrice tr = Some exitP \<and> in_entryPrice tr = Some entryP
          \<and> exitP \<noteq> 0 \<and> entryP \<noteq> 0 \<longrightarrow>
        pnl (fst (addTrade now st sv tr j))
          = Some ((if in_side tr = ''long'' then 1 else - 1) * (exitP - entryP) * in_size tr))"
  by (auto simp add: addTrade_snd_trades addTrade_fst_pnl addTrade_fst_fields truthy_def
      split: option.splits)

theorem addTrade_pnl_witness:
  "pnl (fst (addTrade 1700000000000 1700000000000 1700000000001
              (exampleTrade\<lparr>in_status := ''open''\<rparr>) (newJournal 0))) = Some 45
   \<and> pnl (fst (addTrade 1700000000000 1700000000000 1700000000001
              (exampleTrade\<lparr>in_exitPrice := None\<rparr>) (newJournal 0))) = None"
proof -
  let ?a = "exampleTrade\<lparr>in_status := ''open''\<rparr>"
  let ?b = "exampleTrade\<lparr>in_exitPrice := None\<rparr>"
  have a: "in_exitPrice ?a = Some 240 \<and> in_entryPrice ?a = Some 235.5
           \<and> (240::real) \<noteq> 0 \<and> (235.5::real) \<noteq> 0"
    and a': "in_side ?a = ''long''" "in_size ?a = 10"
    and b: "\<not> truthy (in_exitPrice ?b)"
    by (simp_all add: exampleTrade_def truthy_def)
  from addTrade_pnl [of 1700000000000 1700000000000 1700000000001 ?a "newJournal 0"]
  have "\<forall>exitP entryP. in_exitPrice ?a = Some exitP \<and> in_entryPrice ?a = Some entryP
          \<and> exitP \<noteq> 0 \<and> entryP \<noteq> 0 \<longrightarrow>
        pnl (fst (addTrade 1700000000000 1700000000000 1700000000001 ?a (newJournal 0)))
          = Some ((if in_side ?a = ''long'' then 1 else - 1) * (exitP - entryP) * in_size ?a)"
    by blast
  from this [rule_format, OF a]
  have 1: "pnl (fst (addTrade 1700000000000 1700000000000 1700000000001 ?a (newJournal 0))) = Some 45"
    by (simp add: a')
  from addTrade_pnl [of 1700000000000 1700000000000 1700000000001 ?b "newJournal 0"] b
  have 2: "pnl (fst (addTrade 1700000000000 1700000000000 1700000000001 ?b (newJournal 0))) = None"
    by blast
  from 1 2 show ?thesis by simp
qed


section \<open>Properties of the position tracker\<close>

lemma foldl_totals:
  "foldl (\<lambda>(tv, tdy) (name, pos).
            (let dailyYield = pos_value pos * (pos_apy pos / 100) / 365
             in (tv + pos_value pos, tdy + dailyYield))) (a, b) entries
     = (a + sum_list (map (\<lambda>(name, pos). pos_value pos) entries),
        b + sum_list (map (\<lambda>(name, pos). pos_value pos * (pos_apy pos / 100) / 365) entries))"
  by (induction entries arbitrary: a b) (auto simp: Let_def)

lemma weighted_sum:
  fixes entries :: "(string \<times> position) list"
  shows "sum_list (map (\<lambda>(name, pos). pos_value pos * (pos_apy pos / 100) / 365) entries) * 365 * 100
           = sum_list (map (\<lambda>(name, pos). pos_value pos * pos_apy pos) entries)"
  by (induction entries) (auto simp: algebra_simps)

text \<open>
  \<^bold>\<open>C7.\<close> The totals of \<^verbatim>\<open>showPortfolio\<close>: the total value is the sum of the values of
  the positions, the total daily yield is the sum of value * (apy / 100) / 365, and the
  blended APY is reported exactly when the total value is positive, as
  totalDailyYield * 365 / totalValue * 100, which is the average of the APYs weighted by
  value. \<^verbatim>\<open>showPortfolio\<close> reports these totals whenever a position is tracked. For two
  positions of value 100 at 10 percent and of value 300 at 20 percent the blended APY is
  17.5.
\<close>

theorem portfolio_blendedApy:
  "pf_totalValue (portfolioTotals entries) = sum_list (map (\<lambda>(name, pos). pos_value pos) entries)
   \<and> pf_totalDailyYield (portfolioTotals entries)
        = sum_list (map (\<lambda>(name, pos). pos_value pos * (pos_apy pos / 100) / 365) entries)
   \<and> pf_blendedApy (portfolioTotals entries)
        = (if 0 < pf_totalValue (portfolioTotals entries)
           then Some (pf_totalDailyYield (portfolioTotals entries) * 365
                        / pf_totalValue (portfolioTotals entries) * 100)
           else None)
   \<and> (0 < pf_totalValue (portfolioTotals entries) \<longrightarrow>
        pf_blendedApy (portfolioTotals entries)
          = Some (sum_list (map (\<lambda>(name, pos). pos_value pos * pos_apy pos) entries)
                    / sum_list (map (\<lambda>(name, pos). pos_value pos) entries)))
   \<and> (entries \<noteq> [] \<longrightarrow> showPortfolio entries = Some (portfolioTotals entries))
   \<and> (map (\<lambda>(name, pos). (pos_value pos, pos_apy pos)) entries = [(100, 10), (300, 20)] \<longrightarrow>
        pf_blendedApy (portfolioTotals entries) = Some 17.5)"
proof -
  let ?tv = "sum_list (map (\<lambda>(name, pos). pos_value pos) entries)"
  let ?tdy = "sum_list (map (\<lambda>(name, pos). pos_value pos * (pos_apy pos / 100) / 365) entries)"
  have pt: "portfolioTotals entries =
      \<lparr>pf_totalValue = ?tv, pf_totalDailyYield = ?tdy,
       pf_blendedApy = (if ?tv > 0 then Some ((?tdy * 365 / ?tv) * 100) else None)\<rparr>"
    unfolding portfolioTotals_def foldl_totals by simp
  have w: "?tdy * 365 / ?tv * 100 = sum_list (map (\<lambda>(name, pos). pos_value pos * pos_apy pos) entries) / ?tv"
    using weighted_sum [of entries] by (simp add: field_simps)
  have ex: "pf_blendedApy (portfolioTotals entries) = Some 17.5"
    if "map (\<lambda>(name, pos). (pos_value pos, pos_apy pos)) entries = [(100, 10), (300, 20)]"
  proof -
    from that obtain n1 p1 n2 p2 where e: "entries = [(n1, p1), (n2, p2)]"
      and v: "pos_value p1 = 100" "pos_apy p1 = 10" "pos_value p2 = 300" "pos_apy p2 = 20"
      by auto
    show ?thesis unfolding pt by (simp add: e v)
  qed
  show ?thesis
    using w ex by (auto simp: pt showPortfolio_def)
qed

theorem portfolio_blendedApy_witness:
  "showPortfolio [samplePosition ''jlp'' 100 10, samplePosition ''msol'' 300 20]
     = Some (portfolioTotals [samplePosition ''jlp'' 100 10, samplePosition ''msol'' 300 20])
   \<and> pf_totalValue (portfolioTotals [samplePosition ''jlp'' 100 10, samplePosition ''msol'' 300 20])
       = 400
   \<and> pf_blendedApy (portfolioTotals [samplePosition ''jlp'' 100 10, samplePosition ''msol'' 300 20])
       = Some 17.5"
proof -
  let ?es = "[samplePosition ''jlp'' 100 10, samplePosition ''msol'' 300 20]"
  have h1: "?es \<noteq> []"
    and h2: "map (\<lambda>(name, pos). (pos_value pos, pos_apy pos)) ?es = [(100, 10), (300, 20)]"
    and h3: "sum_list (map (\<lambda>(name, pos). pos_value pos) ?es) = 400"
    by (simp_all add: samplePosition_def)
  note totals = portfolio_blendedApy [of ?es]
  have a: "pf_totalValue (portfolioTotals ?es) = sum_list (map (\<lambda>(name, pos). pos_value pos) ?es)"
    using totals by (elim conjE)
  have b: "?es \<noteq> [] \<longrightarrow> showPortfolio ?es = Some (portfolioTotals ?es)"
    using totals by (elim conjE)
  have c: "map (\<lambda>(name, pos). (pos_value pos, pos_apy pos)) ?es = [(100, 10), (300, 20)] \<longrightarrow>
            pf_blendedApy (portfolioTotals ?es) = Some 17.5"
    using totals by (elim conjE)
  from b h1 have "showPortfolio ?es = Some (portfolioTotals ?es)" by blast
  moreover from c h2 have "pf_blendedApy (portfolioTotals ?es) = Some 17.5" by blast
  moreover from a h3 have "pf_totalValue (portfolioTotals ?es) = 400" by simp
  ultimately show ?thesis by blast
qed

end
